theory Spec2Isabelle
  imports Complex_Main "HOL-Library.Multiset"
begin

section \<open>The SMART CVD risk reduction calculator (cvd_risk_app.py)\<close>

text \<open>
  The calculator is a straight-line script: it reads the side-bar widgets, computes the
  baseline risk, the projected LDL, the post-intervention risk and the outcome metrics, and
  prints them. The embedding follows the script line by line.

  Numbers: the values of integer widgets (age, eGFR, systolic pressures, the count of
  vascular beds) and the catalogue entries are Python ints and are \<open>int\<close> here; every
  other quantity is a Python float and is a \<open>real\<close> here, so the arithmetic of the model is
  exact where the program's is IEEE double precision. \<open>math.log\<close>, \<open>math.exp\<close> and
  \<open>**\<close> are \<open>ln\<close>, \<open>exp\<close> and \<open>powr\<close>.

  Names: three catalogue names hold a character outside ASCII (a plus-minus sign, a
  greater-or-equal sign, an en dash); they are written \<open>+/-\<close>, \<open>>=\<close> and \<open>-\<close> here. No
  two names of a catalogue become equal by that.
\<close>

subsection \<open>Errors\<close>

text \<open>
  What the script can raise: \<open>ValueError\<close> from \<open>math.log\<close> at a non-positive argument,
  \<open>TypeError\<close> from \<open>round\<close> at the complex number that \<open>**0.5\<close> makes of a negative
  base, and \<open>KeyError\<close> from the two dictionary look-ups \<open>ldl_therapies[drug]\<close> and
  \<open>caps[horizon]\<close>.
\<close>

datatype error = ValueError | TypeError | KeyError string

subsection \<open>round(x, 1)\<close>

text \<open>
  Python's \<open>round\<close> rounds to the nearest value and, at a tie, to the even neighbour.
\<close>

definition round_half_even :: "real \<Rightarrow> int" where
  "round_half_even x =
     (let f = \<lfloor>x\<rfloor>; d = x - of_int f
      in if d < 1 / 2 then f
         else if 1 / 2 < d then f + 1
         else if even f then f else f + 1)"

definition py_round1 :: "real \<Rightarrow> real" where
  "py_round1 x = of_int (round_half_even (x * 10)) / 10"

subsection \<open>Intervention data (lines 19-42)\<close>

record intervention =
  name :: string
  arr_lifetime :: int
  arr_5yr :: int

definition interventions :: "intervention list" where
  "interventions =
     [\<lparr>name = ''Smoking cessation'', arr_lifetime = 17, arr_5yr = 5\<rparr>,
      \<lparr>name = ''Antiplatelet (ASA or clopidogrel)'', arr_lifetime = 6, arr_5yr = 2\<rparr>,
      \<lparr>name = ''BP control (ACEi/ARB +/- CCB)'', arr_lifetime = 12, arr_5yr = 4\<rparr>,
      \<lparr>name = ''Semaglutide 2.4 mg'', arr_lifetime = 4, arr_5yr = 1\<rparr>,
      \<lparr>name = ''Weight loss to ideal BMI'', arr_lifetime = 10, arr_5yr = 3\<rparr>,
      \<lparr>name = ''Empagliflozin'', arr_lifetime = 6, arr_5yr = 2\<rparr>,
      \<lparr>name = ''Icosapent ethyl (TG >=1.5)'', arr_lifetime = 5, arr_5yr = 2\<rparr>,
      \<lparr>name = ''Mediterranean diet'', arr_lifetime = 9, arr_5yr = 3\<rparr>,
      \<lparr>name = ''Physical activity'', arr_lifetime = 9, arr_5yr = 3\<rparr>,
      \<lparr>name = ''Alcohol moderation'', arr_lifetime = 5, arr_5yr = 2\<rparr>,
      \<lparr>name = ''Stress reduction'', arr_lifetime = 3, arr_5yr = 1\<rparr>]"

definition ldl_therapies :: "(string \<times> int) list" where
  "ldl_therapies =
     [(''Atorvastatin 20 mg'', 40),
      (''Atorvastatin 80 mg'', 50),
      (''Rosuvastatin 10 mg'', 40),
      (''Rosuvastatin 20-40 mg'', 55),
      (''Simvastatin 40 mg'', 35),
      (''Ezetimibe'', 20),
      (''PCSK9 inhibitor'', 60),
      (''Bempedoic acid'', 18)]"

subsection \<open>SMART risk score functions (lines 45-58)\<close>

definition estimate_smart_risk ::
  "int \<Rightarrow> string \<Rightarrow> int \<Rightarrow> real \<Rightarrow> real \<Rightarrow> bool \<Rightarrow> bool \<Rightarrow> int \<Rightarrow> real \<Rightarrow> int \<Rightarrow> error + real"
where
  "estimate_smart_risk age sex sbp total_chol hdl smoker diabetes egfr crp vasc_count =
     (let sex_val = (if sex = ''Male'' then 1 else 0 :: real);
          smoking_val = (if smoker then 1 else 0 :: real);
          diabetes_val = (if diabetes then 1 else 0 :: real)
      in if crp \<noteq> 0 \<and> crp + 1 \<le> 0 then Inl ValueError
         else
           let crp_log = (if crp \<noteq> 0 then ln (crp + 1) else 0);
               lp = (0.064 * of_int age + 0.34 * sex_val + 0.02 * of_int sbp
                     + 0.25 * total_chol - 0.25 * hdl + 0.44 * smoking_val
                     + 0.51 * diabetes_val - 0.2 * (of_int egfr / 10) + 0.25 * crp_log
                     + 0.4 * of_int vasc_count);
               risk10 = 1 - 0.900 powr exp (lp - 5.8)
           in Inr (py_round1 (risk10 * 100)))"

definition convert_5yr_from_10yr :: "real \<Rightarrow> error + real" where
  "convert_5yr_from_10yr risk10 =
     (let p = risk10 / 100
      in if 1 - p < 0 then Inl TypeError
         else Inr (py_round1 ((1 - (1 - p) powr 0.5) * 100)))"

subsection \<open>Sidebar inputs (lines 61-99)\<close>

record inputs =
  age :: int
  sex :: string
  smoker :: bool
  diabetes :: bool
  egfr :: int
  vasc_count :: int
  total_chol :: real
  hdl :: real
  crp :: real
  baseline_ldl :: real
  hba1c :: real
  pre_tx :: "string list"
  add_tx :: "string list"
  sbp_current :: int
  sbp_target :: int
  ivs :: "string list"
  horizon :: string

text \<open>
  What the widgets allow: the bounds of every slider and number input, the options of the
  radio buttons, three check boxes for the vascular beds, a multiselect over the keys of
  \<open>ldl_therapies\<close>, a second one over the keys not chosen in the first, and one check box
  for each intervention, read in catalogue order.
\<close>

definition valid_inputs :: "inputs \<Rightarrow> bool" where
  "valid_inputs i \<longleftrightarrow>
     30 \<le> age i \<and> age i \<le> 90
     \<and> sex i \<in> {''Male'', ''Female''}
     \<and> 15 \<le> egfr i \<and> egfr i \<le> 120
     \<and> 0 \<le> vasc_count i \<and> vasc_count i \<le> 3
     \<and> 2.0 \<le> total_chol i \<and> total_chol i \<le> 10.0
     \<and> 0.5 \<le> hdl i \<and> hdl i \<le> 3.0
     \<and> 0.1 \<le> crp i \<and> crp i \<le> 20.0
     \<and> 0.5 \<le> baseline_ldl i \<and> baseline_ldl i \<le> 6.0
     \<and> 5.0 \<le> hba1c i \<and> hba1c i \<le> 12.0
     \<and> distinct (pre_tx i) \<and> set (pre_tx i) \<subseteq> set (map fst ldl_therapies)
     \<and> distinct (add_tx i) \<and> set (add_tx i) \<subseteq> set (map fst ldl_therapies) - set (pre_tx i)
     \<and> 80 \<le> sbp_current i \<and> sbp_current i \<le> 220
     \<and> 80 \<le> sbp_target i \<and> sbp_target i \<le> 220
     \<and> ivs i = filter (\<lambda>n. n \<in> set (ivs i)) (map name interventions)
     \<and> horizon i \<in> {''5yr'', ''10yr'', ''lifetime''}"

subsection \<open>Calculations (lines 102-146)\<close>

definition caps :: "(string \<times> int) list" where
  "caps = [(''5yr'', 80), (''10yr'', 85), (''lifetime'', 90)]"

text \<open>Lines 104-106: the baseline risk of the horizon, then its ceiling.\<close>

definition baseline_risk_capped :: "string \<Rightarrow> real \<Rightarrow> real \<Rightarrow> error + real" where
  "baseline_risk_capped hor risk5 risk10 =
     (let baseline_risk = (if hor = ''5yr'' then risk5 else risk10)
      in (case map_of caps hor of
            None \<Rightarrow> Inl (KeyError hor)
          | Some cap \<Rightarrow> Inr (min baseline_risk (of_int cap))))"

text \<open>Lines 110-111 and 114-115: the two loops of the LDL adjustment.\<close>

fun apply_pre_tx :: "string list \<Rightarrow> real \<Rightarrow> error + real" where
  "apply_pre_tx [] adjusted_ldl = Inr adjusted_ldl"
| "apply_pre_tx (drug # rest) adjusted_ldl =
     (case map_of ldl_therapies drug of
        None \<Rightarrow> Inl (KeyError drug)
      | Some pct \<Rightarrow> apply_pre_tx rest (adjusted_ldl * (1 - of_int pct / 100)))"

fun apply_add_tx :: "string list \<Rightarrow> real \<Rightarrow> error + real" where
  "apply_add_tx [] final_ldl = Inr final_ldl"
| "apply_add_tx (drug # rest) final_ldl =
     (case map_of ldl_therapies drug of
        None \<Rightarrow> Inl (KeyError drug)
      | Some pct \<Rightarrow> apply_add_tx rest (final_ldl * (1 - (of_int pct / 100) * 0.5)))"

text \<open>Lines 109-116: the LDL adjustment, from the baseline LDL to \<open>final_ldl\<close>.\<close>

definition final_ldl :: "real \<Rightarrow> string list \<Rightarrow> string list \<Rightarrow> error + real" where
  "final_ldl base pre add =
     (case apply_pre_tx pre base of
        Inl e \<Rightarrow> Inl e
      | Inr a \<Rightarrow>
          let adjusted_ldl = max a 1.0
          in (case apply_add_tx add adjusted_ldl of
                Inl e \<Rightarrow> Inl e
              | Inr f \<Rightarrow> Inr (max f 1.0)))"

text \<open>Lines 120-123: the loop over the catalogue of non-lipid interventions.\<close>

fun apply_interventions :: "intervention list \<Rightarrow> string list \<Rightarrow> string \<Rightarrow> real \<Rightarrow> real" where
  "apply_interventions [] sel hor remaining = remaining"
| "apply_interventions (iv # rest) sel hor remaining =
     apply_interventions rest sel hor
       (if name iv \<in> set sel
        then let arr = (if hor = ''5yr'' then arr_5yr iv else arr_lifetime iv)
             in remaining * (1 - of_int arr / 100)
        else remaining)"

text \<open>Lines 126-129: the LDL effect.\<close>

definition ldl_effect :: "real \<Rightarrow> real \<Rightarrow> real \<Rightarrow> real" where
  "ldl_effect fl base remaining =
     (if fl < base
      then let drop = base - fl; rrr_ldl = min (22 * drop) 35
           in remaining * (1 - rrr_ldl / 100)
      else remaining)"

text \<open>Lines 132-134: the blood pressure effect.\<close>

definition bp_effect :: "int \<Rightarrow> int \<Rightarrow> real \<Rightarrow> real" where
  "bp_effect target current remaining =
     (if target < current
      then let rrr_bp = min (15 * (of_int (current - target) / 10)) 20
           in remaining * (1 - rrr_bp / 100)
      else remaining)"

text \<open>Lines 137-141: the HbA1c effect; the pair is \<open>(rrr_hba1c, remaining)\<close>.\<close>

definition hba1c_effect :: "real \<Rightarrow> real \<Rightarrow> real \<times> real" where
  "hba1c_effect h remaining =
     (if 7.0 < h
      then let rrr_hba1c = min ((h - 7.0) * 9) 30
           in (rrr_hba1c, remaining * (1 - rrr_hba1c / 100))
      else (0, remaining))"

record result =
  res_risk10 :: real
  res_risk5 :: real
  res_baseline :: real
  res_final_ldl :: real
  res_rrr_hba1c :: real
  res_remaining :: real
  final_risk :: real
  arr :: real
  rrr :: real

text \<open>Lines 119-141: the running probability \<open>remaining\<close>, from the capped baseline.\<close>

definition stacking ::
  "real \<Rightarrow> string list \<Rightarrow> string \<Rightarrow> real \<Rightarrow> real \<Rightarrow> int \<Rightarrow> int \<Rightarrow> real \<Rightarrow> real \<times> real"
where
  "stacking capped sel hor fl base target current h =
     hba1c_effect h
       (bp_effect target current
          (ldl_effect fl base
             (apply_interventions interventions sel hor (capped / 100))))"

text \<open>Lines 144-146: the final risk metrics \<open>(final_risk, arr, rrr)\<close>.\<close>

definition metrics :: "real \<Rightarrow> real \<Rightarrow> real \<times> real \<times> real" where
  "metrics capped remaining =
     (let fr = py_round1 (remaining * 100);
          a = py_round1 (capped - fr);
          r = (if capped \<noteq> 0 then py_round1 (min (a / capped * 100) 75) else 0)
      in (fr, a, r))"

text \<open>The script from line 102 to line 146, in its order of evaluation.\<close>

definition compute :: "inputs \<Rightarrow> error + result" where
  "compute i =
     (case estimate_smart_risk (age i) (sex i) (sbp_current i) (total_chol i) (hdl i)
             (smoker i) (diabetes i) (egfr i) (crp i) (vasc_count i) of
        Inl e \<Rightarrow> Inl e
      | Inr risk10 \<Rightarrow>
     (case convert_5yr_from_10yr risk10 of
        Inl e \<Rightarrow> Inl e
      | Inr risk5 \<Rightarrow>
     (case baseline_risk_capped (horizon i) risk5 risk10 of
        Inl e \<Rightarrow> Inl e
      | Inr capped \<Rightarrow>
     (case final_ldl (baseline_ldl i) (pre_tx i) (add_tx i) of
        Inl e \<Rightarrow> Inl e
      | Inr fl \<Rightarrow>
          let (rh, remaining) =
                stacking capped (ivs i) (horizon i) fl (baseline_ldl i)
                  (sbp_target i) (sbp_current i) (hba1c i);
              (fr, a, r) = metrics capped remaining
          in Inr \<lparr>res_risk10 = risk10, res_risk5 = risk5, res_baseline = capped,
                  res_final_ldl = fl, res_rrr_hba1c = rh, res_remaining = remaining,
                  final_risk = fr, arr = a, rrr = r\<rparr>))))"

subsection \<open>Auxiliary definitions for the statements\<close>

text \<open>
  The percent reduction that the catalogue gives for a therapy name, and the linear predictor
  \<open>lp\<close> of \<open>estimate_smart_risk\<close> as a function of its arguments.
\<close>

definition ldl_pct :: "string \<Rightarrow> real" where
  "ldl_pct drug = (case map_of ldl_therapies drug of None \<Rightarrow> 0 | Some pct \<Rightarrow> of_int pct)"

definition lp_of :: "int \<Rightarrow> string \<Rightarrow> int \<Rightarrow> real \<Rightarrow> real \<Rightarrow> bool \<Rightarrow> bool \<Rightarrow> int \<Rightarrow> real \<Rightarrow> int \<Rightarrow> real" where
  "lp_of a s b tc hl sm di eg c v =
     0.064 * of_int a + 0.34 * (if s = ''Male'' then 1 else 0) + 0.02 * of_int b
     + 0.25 * tc - 0.25 * hl + 0.44 * (if sm then 1 else 0)
     + 0.51 * (if di then 1 else 0) - 0.2 * (of_int eg / 10)
     + 0.25 * (if c \<noteq> 0 then ln (c + 1) else 0) + 0.4 * of_int v"

text \<open>
  Two settings of the side bar, one at the end of every range that raises the score and one
  at the end that lowers it; no therapy, no intervention, target pressure equal to the
  current one, HbA1c 7.0 and the ten-year horizon.
\<close>

definition high_risk_inputs :: inputs where
  "high_risk_inputs =
     \<lparr>age = 90, sex = ''Male'', smoker = True, diabetes = True, egfr = 15, vasc_count = 3,
      total_chol = 10.0, hdl = 0.5, crp = 20.0, baseline_ldl = 3.5, hba1c = 7.0,
      pre_tx = [], add_tx = [], sbp_current = 220, sbp_target = 220, ivs = [],
      horizon = ''10yr''\<rparr>"

definition low_risk_inputs :: inputs where
  "low_risk_inputs =
     \<lparr>age = 30, sex = ''Female'', smoker = False, diabetes = False, egfr = 120, vasc_count = 0,
      total_chol = 2.0, hdl = 3.0, crp = 0.1, baseline_ldl = 3.5, hba1c = 7.0,
      pre_tx = [], add_tx = [], sbp_current = 80, sbp_target = 80, ivs = [],
      horizon = ''10yr''\<rparr>"

section \<open>Properties\<close>

subsection \<open>Rounding\<close>

lemma rhe_of_int: "round_half_even (of_int n) = n"
  by (simp add: round_half_even_def)

lemma rhe_mono:
  assumes "x \<le> y"
  shows "round_half_even x \<le> round_half_even y"
proof -
  have f: "\<lfloor>x\<rfloor> \<le> \<lfloor>y\<rfloor>" using assms by (rule floor_mono)
  have lo: "\<lfloor>y\<rfloor> \<le> round_half_even y" by (simp add: round_half_even_def Let_def)
  have hi: "round_half_even x \<le> \<lfloor>x\<rfloor> + 1" by (simp add: round_half_even_def Let_def)
  show ?thesis
  proof (cases "\<lfloor>x\<rfloor> = \<lfloor>y\<rfloor>")
    case False
    then show ?thesis using f lo hi by linarith
  next
    case True
    then show ?thesis using assms by (auto simp: round_half_even_def Let_def)
  qed
qed

lemma py_round1_mono: "x \<le> y \<Longrightarrow> py_round1 x \<le> py_round1 y"
  by (simp add: py_round1_def rhe_mono divide_right_mono)

lemma py_round1_tenths: "py_round1 (of_int k / 10) = of_int k / 10"
  by (simp add: py_round1_def rhe_of_int)

lemma py_round1_of_int: "py_round1 (of_int k) = of_int k"
  using py_round1_tenths [of "10 * k"] by simp

lemma py_round1_numeral [simp]: "py_round1 0 = 0" "py_round1 (numeral n) = numeral n"
  using py_round1_of_int [of 0] py_round1_of_int [of "numeral n"] by simp_all

lemma py_round1_is_tenths: "\<exists>k. py_round1 x = of_int k / 10"
  unfolding py_round1_def by blast

lemma py_round1_idem: "py_round1 (py_round1 x) = py_round1 x"
proof -
  obtain k where k: "py_round1 x = of_int k / 10" using py_round1_is_tenths by blast
  show ?thesis unfolding k by (rule py_round1_tenths)
qed

lemma py_round1_bounds: "a \<le> x \<Longrightarrow> x \<le> b \<Longrightarrow> py_round1 a = a \<Longrightarrow> py_round1 b = b \<Longrightarrow> a \<le> py_round1 x \<and> py_round1 x \<le> b"
  using py_round1_mono by metis

lemma py_round1_eqI:
  assumes "of_int k - 1 / 2 < 10 * y" "10 * y < of_int k + 1 / 2"
  shows "py_round1 y = of_int k / 10"
proof -
  have "round_half_even (y * 10) = k"
  proof (cases "of_int k \<le> y * 10")
    case True
    then have "\<lfloor>y * 10\<rfloor> = k" using assms by (intro floor_unique) linarith+
    then show ?thesis using assms by (simp add: round_half_even_def Let_def)
  next
    case False
    then have "\<lfloor>y * 10\<rfloor> = k - 1" using assms by (intro floor_unique) (simp; linarith)+
    then show ?thesis using assms False by (simp add: round_half_even_def Let_def)
  qed
  then show ?thesis by (simp add: py_round1_def)
qed

lemma py_round1_lower:
  assumes "of_int k - 1 / 2 < 10 * y"
  shows "of_int k / 10 \<le> py_round1 y"
proof (cases "10 * y < of_int k + 1 / 2")
  case True
  then show ?thesis using py_round1_eqI [OF assms] by simp
next
  case False
  then have "of_int k / 10 \<le> y" by simp
  then have "py_round1 (of_int k / 10) \<le> py_round1 y" by (rule py_round1_mono)
  then show ?thesis by (simp add: py_round1_tenths)
qed

subsection \<open>Bounds on the exponential and on powers of 0.9\<close>

lemma powr09_range: "0 < (0.9::real) powr exp x \<and> 0.9 powr exp x < 1"
proof -
  have "(0.9::real) powr exp x < 0.9 powr 0"
    by (rule powr_less_mono') simp_all
  then show ?thesis by simp
qed

lemma exp_ge_pow: "0 \<le> 1 + x \<Longrightarrow> (1 + x) ^ n \<le> exp (real n * x)" for x :: real
  unfolding exp_of_nat_mult by (intro power_mono) simp_all

lemma exp_le_pow: "0 \<le> x \<Longrightarrow> x \<le> 1 \<Longrightarrow> exp (real n * x) \<le> (1 + x + x\<^sup>2) ^ n" for x :: real
  unfolding exp_of_nat_mult by (intro power_mono exp_bound) simp_all

lemma ln09_upper: "ln (0.9 :: real) \<le> - (1 / 10)"
  using ln_le_minus_one [of "0.9 :: real"] by simp

lemma ln09_lower: "- (1 / 9) \<le> ln (0.9 :: real)"
proof -
  have "1 + 1 / 9 \<le> exp (1 / 9 :: real)" by (rule exp_ge_add_one_self)
  then have "exp (- (1 / 9 :: real)) \<le> 9 / 10"
    unfolding exp_minus by (simp add: field_simps)
  then show ?thesis by (subst ln_ge_iff) simp_all
qed

lemma powr09_le:
  assumes "t0 \<le> t" "0 < t0"
  shows "(0.9 :: real) powr t \<le> 1 / (1 + t0 / 10)"
proof -
  have "(0.9 :: real) powr t \<le> 0.9 powr t0"
    using assms by (intro powr_mono') simp_all
  also have "\<dots> = exp (t0 * ln 0.9)" by (simp add: powr_def)
  also have "\<dots> \<le> exp (- (t0 / 10))"
    using ln09_upper assms(2) mult_left_mono [of "ln (0.9::real)" "- (1/10)" t0] by simp
  also have "\<dots> = 1 / exp (t0 / 10)" by (simp add: exp_minus field_simps)
  also have "\<dots> \<le> 1 / (1 + t0 / 10)"
    using assms(2) exp_ge_add_one_self [of "t0 / 10"] by (intro divide_left_mono) simp_all
  finally show ?thesis .
qed

lemma powr09_ge:
  assumes "t \<le> t1" "0 < t"
  shows "1 - t1 / 9 \<le> (0.9 :: real) powr t"
proof -
  have "1 - t1 / 9 \<le> 1 + t1 * ln 0.9"
    using ln09_lower assms mult_left_mono [of "- (1/9)" "ln (0.9::real)" t1] by simp
  also have "\<dots> \<le> exp (t1 * ln 0.9)" by (rule exp_ge_add_one_self)
  also have "\<dots> = 0.9 powr t1" by (simp add: powr_def)
  also have "\<dots> \<le> 0.9 powr t"
    using assms by (intro powr_mono') simp_all
  finally show ?thesis .
qed

lemma exp_5_le: "exp (5 :: real) \<le> 172"
proof -
  have "exp (real 80 * (1 / 16)) \<le> (1 + 1 / 16 + (1 / 16)\<^sup>2) ^ 80"
    by (rule exp_le_pow) simp_all
  also have "\<dots> \<le> (172 :: real)" by (simp add: power2_eq_square power_divide)
  finally show ?thesis by simp
qed

lemma exp_49_ge: "106 \<le> exp (4.9 :: real)"
proof -
  have "(106 :: real) \<le> (1 + 1 / 10) ^ 49" by (simp add: power_divide)
  also have "\<dots> \<le> exp (real 49 * (1 / 10))" by (rule exp_ge_pow) simp
  finally show ?thesis by simp
qed

lemma exp_7_ge: "128 \<le> exp (7 :: real)"
proof -
  have "(128 :: real) \<le> (1 + 1) ^ 7" by simp
  also have "\<dots> \<le> exp (real 7 * 1)" by (rule exp_ge_pow) simp
  finally show ?thesis by simp
qed


lemma raw_risk_lower:
  fixes x :: real
  assumes "- 4.93 \<le> x"
  shows "0.05 < (1 - 0.9 powr exp x) * 100"
proof -
  have "exp (- x) \<le> exp 5" using assms by simp
  then have "exp (- x) \<le> 172" using exp_5_le by linarith
  then have "1 / 172 \<le> exp x"
    unfolding exp_minus by (simp add: field_simps)
  then have "(0.9 :: real) powr exp x \<le> 1 / (1 + (1 / 172) / 10)"
    by (intro powr09_le) simp_all
  then show ?thesis by simp
qed

lemma raw_risk_upper:
  fixes x :: real
  assumes "x \<le> - 4.9"
  shows "(1 - 0.9 powr exp x) * 100 < 0.15"
proof -
  have "exp 4.9 \<le> exp (- x)" using assms by simp
  then have "106 \<le> exp (- x)" using exp_49_ge by linarith
  then have "exp x \<le> 1 / 106"
    unfolding exp_minus by (simp add: field_simps)
  then have "1 - (1 / 106) / 9 \<le> (0.9 :: real) powr exp x"
    by (intro powr09_ge) simp_all
  then show ?thesis by simp
qed

lemma raw_risk_top:
  fixes x :: real
  assumes "7 \<le> x"
  shows "99.95 < (1 - 0.9 powr exp x) * 100"
proof -
  have "exp 7 \<le> exp x" using assms by simp
  then have "128 \<le> exp x" using exp_7_ge by linarith
  then have "(0.9 :: real) powr exp x \<le> 0.9 powr 128"
    by (intro powr_mono') simp_all
  also have "\<dots> = 0.9 ^ 128" by (simp add: powr_numeral)
  also have "\<dots> < (0.0005 :: real)" by (simp add: power_divide)
  finally show ?thesis by simp
qed

subsection \<open>The risk score\<close>

lemma estimate_smart_risk_eq:
  assumes "c = 0 \<or> 0 < c + 1"
  shows "estimate_smart_risk a s b tc hl sm di eg c v
      = Inr (py_round1 ((1 - 0.9 powr exp (lp_of a s b tc hl sm di eg c v - 5.8)) * 100))"
proof -
  have g: "\<not> (c \<noteq> 0 \<and> c + 1 \<le> 0)" using assms by auto
  show ?thesis
    unfolding estimate_smart_risk_def Let_def lp_of_def if_not_P [OF g] by simp
qed

lemma estimate_smart_risk_range:
  assumes "c = 0 \<or> 0 < c + 1"
  shows "\<exists>r k. estimate_smart_risk a s b tc hl sm di eg c v = Inr r
           \<and> r = of_int k / 10 \<and> 0 \<le> r \<and> r \<le> 100"
proof -
  define lp where "lp = 0.064 * of_int a + 0.34 * (if s = ''Male'' then 1 else 0 :: real)
      + 0.02 * of_int b + 0.25 * tc - 0.25 * hl + 0.44 * (if sm then 1 else 0 :: real)
      + 0.51 * (if di then 1 else 0 :: real) - 0.2 * (of_int eg / 10)
      + 0.25 * (if c \<noteq> 0 then ln (c + 1) else 0) + 0.4 * of_int v"
  have g: "\<not> (c \<noteq> 0 \<and> c + 1 \<le> 0)" using assms by auto
  have x: "estimate_smart_risk a s b tc hl sm di eg c v
      = Inr (py_round1 ((1 - 0.9 powr exp (lp - 5.8)) * 100))"
    unfolding estimate_smart_risk_def Let_def lp_def if_not_P [OF g] by simp
  let ?y = "(1 - 0.9 powr exp (lp - 5.8)) * 100 :: real"
  have "0 \<le> ?y" "?y \<le> 100" using powr09_range [of "lp - 5.8"] by simp_all
  then have "py_round1 0 \<le> py_round1 ?y" "py_round1 ?y \<le> py_round1 100"
    by (simp_all only: py_round1_mono)
  then have "0 \<le> py_round1 ?y \<and> py_round1 ?y \<le> 100" by simp
  moreover obtain k where "py_round1 ?y = of_int k / 10"
    using py_round1_is_tenths by blast
  ultimately show ?thesis using x by blast
qed

lemma one_minus_sqrt_le:
  assumes "0 \<le> p" "p \<le> (1::real)"
  shows "0 \<le> 1 - (1 - p) powr 0.5" "1 - (1 - p) powr 0.5 \<le> p"
proof -
  define q where "q = 1 - p"
  have q: "0 \<le> q" "q \<le> 1" using assms by (simp_all add: q_def)
  have s: "q powr 0.5 = sqrt q" using q powr_half_sqrt [of q] by simp
  have s1: "sqrt q \<le> 1" "0 \<le> sqrt q" using q by simp_all
  have "sqrt q * sqrt q \<le> 1 * sqrt q"
    using s1 by (intro mult_right_mono)
  then have "q \<le> sqrt q" using q by simp
  then show "1 - (1 - p) powr 0.5 \<le> p" using s by (simp add: q_def)
  show "0 \<le> 1 - (1 - p) powr 0.5" using s s1 by (simp add: q_def)
qed

lemma convert_5yr_from_10yr_le:
  assumes "0 \<le> r" "r \<le> 100" "py_round1 r = r"
  shows "\<exists>r5. convert_5yr_from_10yr r = Inr r5 \<and> 0 \<le> r5 \<and> r5 \<le> r \<and> py_round1 r5 = r5"
proof -
  let ?y = "(1 - (1 - r / 100) powr 0.5) * 100"
  have c: "convert_5yr_from_10yr r = Inr (py_round1 ?y)"
    using assms(2) by (simp add: convert_5yr_from_10yr_def Let_def)
  have "0 \<le> ?y" "?y \<le> r"
    using one_minus_sqrt_le [of "r / 100"] assms(1,2) by simp_all
  then have "py_round1 0 \<le> py_round1 ?y" "py_round1 ?y \<le> py_round1 r"
    by (simp_all only: py_round1_mono)
  then have "0 \<le> py_round1 ?y" "py_round1 ?y \<le> r"
    using assms(3) by simp_all
  then show ?thesis using c py_round1_idem by blast
qed

lemma half_below_one_minus_sqrt:
  assumes "0 < p" "p \<le> (1::real)"
  shows "p / 2 < 1 - (1 - p) powr 0.5"
proof -
  have s: "(1 - p) powr 0.5 = sqrt (1 - p)" using assms powr_half_sqrt [of "1 - p"] by simp
  have "1 - p < (1 - p / 2)\<^sup>2" using assms by (simp add: power2_eq_square algebra_simps)
  then have "sqrt (1 - p) < 1 - p / 2" using assms by (intro real_less_lsqrt) simp_all
  then show ?thesis using s by simp
qed

lemma convert_5yr_from_10yr_valid:
  assumes "0.1 \<le> r" "r \<le> 100" "py_round1 r = r"
  shows "\<exists>r5. convert_5yr_from_10yr r = Inr r5 \<and> 0.1 \<le> r5 \<and> r5 \<le> r \<and> py_round1 r5 = r5"
proof -
  let ?y = "(1 - (1 - r / 100) powr 0.5) * 100"
  obtain r5 where r5: "convert_5yr_from_10yr r = Inr r5" "r5 \<le> r" "py_round1 r5 = r5"
    using convert_5yr_from_10yr_le [of r] assms by auto
  have c: "convert_5yr_from_10yr r = Inr (py_round1 ?y)"
    using assms(2) by (simp add: convert_5yr_from_10yr_def Let_def)
  have "(r / 100) / 2 < 1 - (1 - r / 100) powr 0.5"
    using assms by (intro half_below_one_minus_sqrt) simp_all
  then have "of_int 1 - 1 / 2 < 10 * ?y" using assms(1) by simp
  then have "of_int 1 / 10 \<le> py_round1 ?y" by (rule py_round1_lower)
  then show ?thesis using r5 c by simp
qed

lemma convert_100: "convert_5yr_from_10yr 100 = Inr 100"
  by (simp add: convert_5yr_from_10yr_def)

lemma convert_low: "convert_5yr_from_10yr (1 / 10) = Inr (1 / 10)"
proof -
  have "py_round1 (0.1 :: real) = 0.1" using py_round1_tenths [of 1] by simp
  then obtain r5 where "convert_5yr_from_10yr 0.1 = Inr r5" "0.1 \<le> r5" "r5 \<le> 0.1"
    using convert_5yr_from_10yr_valid [of "0.1"] by auto
  then show ?thesis by simp
qed

lemma valid_high_risk_inputs: "valid_inputs high_risk_inputs"
  by (simp add: valid_inputs_def high_risk_inputs_def)

lemma valid_low_risk_inputs: "valid_inputs low_risk_inputs"
  by (simp add: valid_inputs_def low_risk_inputs_def)

lemma estimate_high: "estimate_smart_risk 90 ''Male'' 220 10 (1 / 2) True True 15 20 3 = Inr 100"
proof -
  let ?x = "lp_of 90 ''Male'' 220 10.0 0.5 True True 15 20.0 3 - 5.8"
  have "?x = 357 / 40 + ln 21 / 4" by (simp add: lp_of_def)
  moreover have "0 \<le> ln (21 :: real)" by simp
  ultimately have "7 \<le> ?x" by linarith
  then have r: "99.95 < (1 - 0.9 powr exp ?x) * 100" by (rule raw_risk_top)
  have p: "0 < (0.9 :: real) powr exp ?x" using powr09_range [of ?x] by simp
  have "py_round1 ((1 - 0.9 powr exp ?x) * 100) = of_int 1000 / 10"
  proof (rule py_round1_eqI)
    show "of_int 1000 - 1 / 2 < 10 * ((1 - 0.9 powr exp ?x) * 100)" using r by simp
    have "- 1 < 2000 * (0.9 :: real) powr exp ?x" using p by linarith
    then show "10 * ((1 - 0.9 powr exp ?x) * 100) < of_int 1000 + 1 / 2" by simp
  qed
  then show ?thesis by (simp add: estimate_smart_risk_eq)
qed

lemma estimate_low:
  "estimate_smart_risk 30 ''Female'' 80 2 3 False False 120 (1 / 10) 0 = Inr (1 / 10)"
proof -
  let ?x = "lp_of 30 ''Female'' 80 2.0 3.0 False False 120 0.1 0 - 5.8"
  have "?x = ln (11 / 10) / 4 - 493 / 100" by (simp add: lp_of_def)
  moreover have "0 \<le> ln (11 / 10 :: real)" by simp
  moreover have "ln (1 + 1 / 10 :: real) \<le> 1 / 10" by (rule ln_add_one_self_le_self) simp
  ultimately have "- 4.93 \<le> ?x" "?x \<le> - 4.9" by simp_all
  then have "0.05 < (1 - 0.9 powr exp ?x) * 100" "(1 - 0.9 powr exp ?x) * 100 < 0.15"
    by (simp_all only: raw_risk_lower raw_risk_upper)
  then have "py_round1 ((1 - 0.9 powr exp ?x) * 100) = of_int 1 / 10"
    by (intro py_round1_eqI) simp_all
  then show ?thesis by (simp add: estimate_smart_risk_eq)
qed

lemma lp_linear_lower:
  fixes a :: real
  assumes "0 \<le> sv" "0 \<le> sm" "0 \<le> dv" "0 \<le> cl" "30 \<le> a" "80 \<le> b" "eg \<le> 120"
    "0 \<le> v" "2 \<le> tc" "hl \<le> 3"
  shows "- 4.93 \<le> 0.064 * a + 0.34 * sv + 0.02 * b + 0.25 * tc - 0.25 * hl + 0.44 * sm
       + 0.51 * dv - 0.2 * (eg / 10) + 0.25 * cl + 0.4 * v - 5.8"
  using assms by simp

lemma lp_of_valid_lower:
  assumes "valid_inputs i"
  shows "- 4.93 \<le> lp_of (age i) (sex i) (sbp_current i) (total_chol i) (hdl i)
             (smoker i) (diabetes i) (egfr i) (crp i) (vasc_count i) - 5.8"
proof -
  have c: "0.1 \<le> crp i" using assms by (simp add: valid_inputs_def)
  then have l: "0 \<le> (if crp i \<noteq> 0 then ln (crp i + 1) else 0)" by simp
  have s: "0 \<le> (if sex i = ''Male'' then 1 else 0 :: real)"
      "0 \<le> (if smoker i then 1 else 0 :: real)" "0 \<le> (if diabetes i then 1 else 0 :: real)"
    by simp_all
  have b: "30 \<le> real_of_int (age i)" "80 \<le> real_of_int (sbp_current i)"
      "real_of_int (egfr i) \<le> 120" "0 \<le> real_of_int (vasc_count i)"
      "2 \<le> total_chol i" "hdl i \<le> 3"
    using assms by (simp_all add: valid_inputs_def)
  show ?thesis unfolding lp_of_def
    by (rule lp_linear_lower [OF s l b])
qed

lemma estimate_valid:
  assumes "valid_inputs i"
  shows "\<exists>r. estimate_smart_risk (age i) (sex i) (sbp_current i) (total_chol i) (hdl i)
             (smoker i) (diabetes i) (egfr i) (crp i) (vasc_count i) = Inr r
           \<and> 0.1 \<le> r \<and> r \<le> 100 \<and> py_round1 r = r"
proof -
  let ?x = "lp_of (age i) (sex i) (sbp_current i) (total_chol i) (hdl i)
             (smoker i) (diabetes i) (egfr i) (crp i) (vasc_count i) - 5.8"
  let ?y = "(1 - 0.9 powr exp ?x) * 100"
  have c: "crp i = 0 \<or> 0 < crp i + 1" using assms by (simp add: valid_inputs_def)
  have "0.05 < ?y" using lp_of_valid_lower [OF assms] by (rule raw_risk_lower)
  then have "of_int 1 / 10 \<le> py_round1 ?y"
    by (intro py_round1_lower) simp
  moreover have "?y \<le> 100" using powr09_range [of ?x] by simp
  then have "py_round1 ?y \<le> py_round1 100" by (rule py_round1_mono)
  ultimately have "0.1 \<le> py_round1 ?y" "py_round1 ?y \<le> 100" by simp_all
  then show ?thesis
    unfolding estimate_smart_risk_eq [OF c] using py_round1_idem by blast
qed

subsection \<open>The LDL adjustment\<close>

lemma ldl_lookup:
  assumes "drug \<in> set (map fst ldl_therapies)"
  shows "\<exists>pct. map_of ldl_therapies drug = Some pct \<and> ldl_pct drug = of_int pct"
proof -
  have "map_of ldl_therapies drug \<noteq> None"
    using assms by (simp add: map_of_eq_None_iff)
  then show ?thesis by (auto simp: ldl_pct_def)
qed

lemma apply_pre_tx_valid:
  "set pre \<subseteq> set (map fst ldl_therapies) \<Longrightarrow>
   apply_pre_tx pre x = Inr (x * (\<Prod>d\<leftarrow>pre. 1 - ldl_pct d / 100))"
proof (induction pre arbitrary: x)
  case Nil
  then show ?case by simp
next
  case (Cons d pre)
  then obtain pct where p: "map_of ldl_therapies d = Some pct" "ldl_pct d = of_int pct"
    using ldl_lookup [of d] by auto
  from Cons have "apply_pre_tx pre (x * (1 - of_int pct / 100))
      = Inr (x * (1 - of_int pct / 100) * (\<Prod>d\<leftarrow>pre. 1 - ldl_pct d / 100))"
    by simp
  then show ?case using p by (simp add: mult.assoc)
qed

lemma apply_add_tx_valid:
  "set add \<subseteq> set (map fst ldl_therapies) \<Longrightarrow>
   apply_add_tx add x = Inr (x * (\<Prod>d\<leftarrow>add. 1 - (ldl_pct d / 100) * 0.5))"
proof (induction add arbitrary: x)
  case Nil
  then show ?case by simp
next
  case (Cons d add)
  then obtain pct where p: "map_of ldl_therapies d = Some pct" "ldl_pct d = of_int pct"
    using ldl_lookup [of d] by auto
  from Cons have "apply_add_tx add (x * (1 - (of_int pct / 100) * 0.5))
      = Inr (x * (1 - (of_int pct / 100) * 0.5) * (\<Prod>d\<leftarrow>add. 1 - (ldl_pct d / 100) * 0.5))"
    by simp
  then show ?case using p by (simp add: mult.assoc)
qed

lemma final_ldl_valid:
  assumes "set pre \<subseteq> set (map fst ldl_therapies)" "set add \<subseteq> set (map fst ldl_therapies)"
  shows "final_ldl base pre add =
     Inr (max (max (base * (\<Prod>d\<leftarrow>pre. 1 - ldl_pct d / 100)) 1
               * (\<Prod>d\<leftarrow>add. 1 - (ldl_pct d / 100) * 0.5)) 1)"
  by (simp add: final_ldl_def apply_pre_tx_valid [OF assms(1)] apply_add_tx_valid [OF assms(2)])

lemma final_ldl_ge_1: "final_ldl base pre add = Inr fl \<Longrightarrow> 1 \<le> fl"
  by (auto simp: final_ldl_def Let_def split: sum.splits)

lemma prod_list_perm:
  fixes f :: "'a \<Rightarrow> real"
  assumes "mset xs = mset ys"
  shows "(\<Prod>x\<leftarrow>xs. f x) = (\<Prod>x\<leftarrow>ys. f x)"
proof -
  have "mset (map f xs) = mset (map f ys)" using assms by (metis mset_map)
  then show ?thesis by (metis prod_mset_prod_list)
qed

subsection \<open>The stacking of effects\<close>

lemma apply_interventions_prod:
  "apply_interventions cat sel hor x =
     x * (\<Prod>iv\<leftarrow>filter (\<lambda>iv. name iv \<in> set sel) cat.
            1 - of_int (if hor = ''5yr'' then arr_5yr iv else arr_lifetime iv) / 100)"
  by (induction cat arbitrary: x) (simp_all add: Let_def mult.assoc)

lemma prod_filter_insert:
  fixes f :: "intervention \<Rightarrow> real"
  assumes "distinct (map name cat)" "iv0 \<in> set cat" "name iv0 \<notin> S"
  shows "(\<Prod>iv\<leftarrow>filter (\<lambda>iv. name iv \<in> insert (name iv0) S) cat. f iv)
       = f iv0 * (\<Prod>iv\<leftarrow>filter (\<lambda>iv. name iv \<in> S) cat. f iv)"
  using assms
proof (induction cat)
  case Nil
  then show ?case by simp
next
  case (Cons a cat)
  show ?case
  proof (cases "a = iv0")
    case True
    have "name iv0 \<notin> name ` set cat" using Cons.prems(1) True by simp
    then have "filter (\<lambda>iv. name iv \<in> insert (name iv0) S) cat = filter (\<lambda>iv. name iv \<in> S) cat"
      by (intro filter_cong) (auto simp: image_iff)
    then show ?thesis using True Cons.prems(3) by simp
  next
    case False
    then have m: "iv0 \<in> set cat" using Cons.prems(2) by simp
    then have "name a \<noteq> name iv0" using Cons.prems(1) by auto
    moreover have "(\<Prod>iv\<leftarrow>filter (\<lambda>iv. name iv \<in> insert (name iv0) S) cat. f iv)
       = f iv0 * (\<Prod>iv\<leftarrow>filter (\<lambda>iv. name iv \<in> S) cat. f iv)"
      using Cons.IH m Cons.prems by simp
    ultimately show ?thesis by simp
  qed
qed

lemma interventions_distinct: "distinct (map name interventions)"
  by (simp add: interventions_def)

lemma interventions_effects:
  "iv \<in> set interventions \<Longrightarrow>
     0 < arr_5yr iv \<and> arr_5yr iv < 100 \<and> 0 < arr_lifetime iv \<and> arr_lifetime iv < 100"
  by (auto simp: interventions_def)

lemma ldl_effect_scale: "ldl_effect fl base (c * x) = c * ldl_effect fl base x"
  by (simp add: ldl_effect_def Let_def)

lemma bp_effect_scale: "bp_effect target current (c * x) = c * bp_effect target current x"
  by (simp add: bp_effect_def Let_def)

lemma hba1c_effect_scale: "snd (hba1c_effect h (c * x)) = c * snd (hba1c_effect h x)"
  by (simp add: hba1c_effect_def Let_def)

lemma ldl_effect_nonneg: "0 \<le> x \<Longrightarrow> 0 \<le> ldl_effect fl base x"
  by (auto simp: ldl_effect_def Let_def min_def intro!: mult_nonneg_nonneg)

lemma ldl_effect_pos: "0 < x \<Longrightarrow> 0 < ldl_effect fl base x"
  by (auto simp: ldl_effect_def Let_def min_def intro!: mult_pos_pos)

lemma bp_effect_nonneg: "0 \<le> x \<Longrightarrow> 0 \<le> bp_effect target current x"
  by (auto simp: bp_effect_def Let_def min_def intro!: mult_nonneg_nonneg)

lemma bp_effect_pos: "0 < x \<Longrightarrow> 0 < bp_effect target current x"
  by (auto simp: bp_effect_def Let_def min_def intro!: mult_pos_pos)

lemma hba1c_effect_nonneg: "0 \<le> x \<Longrightarrow> 0 \<le> snd (hba1c_effect h x)"
  by (auto simp: hba1c_effect_def Let_def min_def intro!: mult_nonneg_nonneg)

lemma hba1c_effect_pos: "0 < x \<Longrightarrow> 0 < snd (hba1c_effect h x)"
  by (auto simp: hba1c_effect_def Let_def min_def intro!: mult_pos_pos)

lemma stacking_scale:
  assumes "apply_interventions interventions sel' hor (capped / 100)
         = c * apply_interventions interventions sel hor (capped / 100)"
  shows "snd (stacking capped sel' hor fl base target current h)
       = c * snd (stacking capped sel hor fl base target current h)"
  by (simp add: stacking_def assms ldl_effect_scale bp_effect_scale hba1c_effect_scale)

lemma prod_list_pos_real:
  fixes f :: "'a \<Rightarrow> real"
  shows "(\<And>x. x \<in> set xs \<Longrightarrow> 0 < f x) \<Longrightarrow> 0 < (\<Prod>x\<leftarrow>xs. f x)"
  by (induction xs) simp_all

lemma interventions_prod_pos:
  "0 < (\<Prod>iv\<leftarrow>filter (\<lambda>iv. name iv \<in> set sel) interventions.
            1 - real_of_int (if hor = ''5yr'' then arr_5yr iv else arr_lifetime iv) / 100)"
proof (rule prod_list_pos_real)
  fix iv assume "iv \<in> set (filter (\<lambda>iv. name iv \<in> set sel) interventions)"
  then have "iv \<in> set interventions" by simp
  then show "0 < 1 - real_of_int (if hor = ''5yr'' then arr_5yr iv else arr_lifetime iv) / 100"
    using interventions_effects [of iv] by auto
qed

lemma stacking_nonneg: "0 \<le> capped \<Longrightarrow> 0 \<le> snd (stacking capped sel hor fl base target current h)"
  unfolding stacking_def apply_interventions_prod
  by (intro hba1c_effect_nonneg bp_effect_nonneg ldl_effect_nonneg mult_nonneg_nonneg
        less_imp_le [OF interventions_prod_pos]) simp

lemma stacking_pos: "0 < capped \<Longrightarrow> 0 < snd (stacking capped sel hor fl base target current h)"
  unfolding stacking_def apply_interventions_prod
  by (intro hba1c_effect_pos bp_effect_pos ldl_effect_pos mult_pos_pos interventions_prod_pos) simp

lemma add_intervention_factor:
  assumes "iv \<in> set interventions" "name iv \<notin> set sel" "set sel' = insert (name iv) (set sel)"
  shows "apply_interventions interventions sel' hor x
       = (1 - of_int (if hor = ''5yr'' then arr_5yr iv else arr_lifetime iv) / 100)
         * apply_interventions interventions sel hor x"
proof -
  let ?f = "\<lambda>iv. 1 - real_of_int (if hor = ''5yr'' then arr_5yr iv else arr_lifetime iv) / 100"
  have "(\<Prod>v\<leftarrow>filter (\<lambda>v. name v \<in> set sel') interventions. ?f v)
      = ?f iv * (\<Prod>v\<leftarrow>filter (\<lambda>v. name v \<in> set sel) interventions. ?f v)"
    unfolding assms(3) by (rule prod_filter_insert [OF interventions_distinct assms(1,2)])
  then show ?thesis
    unfolding apply_interventions_prod by (simp only: mult.assoc mult.left_commute)
qed

subsection \<open>The whole calculation\<close>

lemma compute_eq:
  assumes "estimate_smart_risk (age i) (sex i) (sbp_current i) (total_chol i) (hdl i)
             (smoker i) (diabetes i) (egfr i) (crp i) (vasc_count i) = Inr risk10"
    and "convert_5yr_from_10yr risk10 = Inr risk5"
    and "baseline_risk_capped (horizon i) risk5 risk10 = Inr capped"
    and "final_ldl (baseline_ldl i) (pre_tx i) (add_tx i) = Inr fl"
    and "stacking capped (ivs i) (horizon i) fl (baseline_ldl i)
           (sbp_target i) (sbp_current i) (hba1c i) = (rh, remaining)"
    and "metrics capped remaining = (fr, a, r)"
  shows "compute i = Inr \<lparr>res_risk10 = risk10, res_risk5 = risk5, res_baseline = capped,
           res_final_ldl = fl, res_rrr_hba1c = rh, res_remaining = remaining,
           final_risk = fr, arr = a, rrr = r\<rparr>"
  by (simp add: compute_def assms)

lemma compute_InrD:
  assumes "compute i = Inr res"
  shows "estimate_smart_risk (age i) (sex i) (sbp_current i) (total_chol i) (hdl i)
             (smoker i) (diabetes i) (egfr i) (crp i) (vasc_count i) = Inr (res_risk10 res)"
    and "convert_5yr_from_10yr (res_risk10 res) = Inr (res_risk5 res)"
    and "baseline_risk_capped (horizon i) (res_risk5 res) (res_risk10 res) = Inr (res_baseline res)"
    and "final_ldl (baseline_ldl i) (pre_tx i) (add_tx i) = Inr (res_final_ldl res)"
    and "stacking (res_baseline res) (ivs i) (horizon i) (res_final_ldl res) (baseline_ldl i)
           (sbp_target i) (sbp_current i) (hba1c i) = (res_rrr_hba1c res, res_remaining res)"
    and "metrics (res_baseline res) (res_remaining res) = (final_risk res, arr res, rrr res)"
  using assms
  by (auto simp: compute_def Let_def split: sum.splits prod.splits)

lemma baseline_risk_capped_valid:
  assumes "hor \<in> {''5yr'', ''10yr'', ''lifetime''}"
    and "0.1 \<le> r5" "r5 \<le> r10" "r10 \<le> 100" "py_round1 r5 = r5" "py_round1 r10 = r10"
  shows "\<exists>c. baseline_risk_capped hor r5 r10 = Inr c \<and> 0.1 \<le> c \<and> c \<le> 90 \<and> py_round1 c = c"
  using assms by (auto simp: baseline_risk_capped_def caps_def min_def)

lemma final_ldl_total:
  assumes "set pre \<subseteq> set (map fst ldl_therapies)" "set add \<subseteq> set (map fst ldl_therapies)"
  shows "\<exists>fl. final_ldl base pre add = Inr fl"
  using final_ldl_valid [OF assms] by blast

lemma compute_valid:
  assumes "valid_inputs i"
  shows "\<exists>r. compute i = Inr r \<and> 0.1 \<le> res_baseline r \<and> res_baseline r \<le> 90
           \<and> py_round1 (res_baseline r) = res_baseline r
           \<and> 0.1 \<le> res_risk5 r \<and> res_risk5 r \<le> res_risk10 r \<and> res_risk10 r \<le> 100"
proof -
  obtain r10 where r10: "estimate_smart_risk (age i) (sex i) (sbp_current i) (total_chol i) (hdl i)
             (smoker i) (diabetes i) (egfr i) (crp i) (vasc_count i) = Inr r10"
      "0.1 \<le> r10" "r10 \<le> 100" "py_round1 r10 = r10"
    using estimate_valid [OF assms] by blast
  obtain r5 where r5: "convert_5yr_from_10yr r10 = Inr r5" "0.1 \<le> r5" "r5 \<le> r10" "py_round1 r5 = r5"
    using convert_5yr_from_10yr_valid [OF r10(2-4)] by blast
  have h: "horizon i \<in> {''5yr'', ''10yr'', ''lifetime''}"
    using assms by (simp add: valid_inputs_def)
  obtain c where c: "baseline_risk_capped (horizon i) r5 r10 = Inr c" "0.1 \<le> c" "c \<le> 90" "py_round1 c = c"
    using baseline_risk_capped_valid [OF h r5(2,3) r10(3) r5(4) r10(4)] by blast
  have "set (pre_tx i) \<subseteq> set (map fst ldl_therapies)" "set (add_tx i) \<subseteq> set (map fst ldl_therapies)"
    using assms by (auto simp: valid_inputs_def)
  then obtain fl where fl: "final_ldl (baseline_ldl i) (pre_tx i) (add_tx i) = Inr fl"
    using final_ldl_total by blast
  obtain rh rem where st: "stacking c (ivs i) (horizon i) fl (baseline_ldl i)
           (sbp_target i) (sbp_current i) (hba1c i) = (rh, rem)"
    by (cases "stacking c (ivs i) (horizon i) fl (baseline_ldl i)
           (sbp_target i) (sbp_current i) (hba1c i)")
  obtain fr a rr where m: "metrics c rem = (fr, a, rr)"
    by (cases "metrics c rem")
  show ?thesis
    unfolding compute_eq [OF r10(1) r5(1) c(1) fl st m]
    using c r5 r10 by simp
qed

lemma metrics_identity:
  assumes "py_round1 c = c"
  shows "metrics c (c / 100) = (c, 0, 0)"
  using assms by (simp add: metrics_def Let_def)

lemma metrics_final_risk: "fst (metrics c x) = py_round1 (x * 100)"
  by (simp add: metrics_def Let_def)

lemma metrics_rrr_le: "snd (snd (metrics c x)) \<le> 75"
proof -
  have "py_round1 (min y 75) \<le> py_round1 75" for y
    by (rule py_round1_mono) simp
  then show ?thesis by (simp add: metrics_def Let_def)
qed

lemma compute_change_ivs:
  assumes "compute i = Inr r"
  shows "\<exists>r'. compute (i\<lparr>ivs := sel\<rparr>) = Inr r' \<and> res_baseline r' = res_baseline r
            \<and> res_remaining r' = snd (stacking (res_baseline r) sel (horizon i) (res_final_ldl r)
                  (baseline_ldl i) (sbp_target i) (sbp_current i) (hba1c i))
            \<and> final_risk r' = py_round1 (res_remaining r' * 100)"
proof -
  note d = compute_InrD [OF assms]
  let ?i = "i\<lparr>ivs := sel\<rparr>"
  obtain rh rem where st: "stacking (res_baseline r) (ivs ?i) (horizon ?i) (res_final_ldl r) (baseline_ldl ?i)
           (sbp_target ?i) (sbp_current ?i) (hba1c ?i) = (rh, rem)"
    by (cases "stacking (res_baseline r) (ivs ?i) (horizon ?i) (res_final_ldl r) (baseline_ldl ?i)
           (sbp_target ?i) (sbp_current ?i) (hba1c ?i)")
  obtain fr a rr where m: "metrics (res_baseline r) rem = (fr, a, rr)"
    by (cases "metrics (res_baseline r) rem")
  have "compute ?i = Inr \<lparr>res_risk10 = res_risk10 r, res_risk5 = res_risk5 r,
           res_baseline = res_baseline r, res_final_ldl = res_final_ldl r, res_rrr_hba1c = rh,
           res_remaining = rem, final_risk = fr, arr = a, rrr = rr\<rparr>"
    by (rule compute_eq [OF _ _ _ _ st m]) (use d in simp_all)
  moreover have "rem = snd (stacking (res_baseline r) sel (horizon i) (res_final_ldl r)
                  (baseline_ldl i) (sbp_target i) (sbp_current i) (hba1c i))"
    using st by simp
  moreover have "fr = py_round1 (rem * 100)" using m metrics_final_risk [of "res_baseline r" rem] by simp
  ultimately show ?thesis by simp
qed

subsection \<open>The calculation at concrete settings\<close>

lemma estimate_rounded:
  "estimate_smart_risk a s b tc hl sm di eg c v = Inr r \<Longrightarrow> py_round1 r = r"
  by (auto simp: estimate_smart_risk_def Let_def py_round1_idem split: if_splits)

lemma convert_rounded: "convert_5yr_from_10yr r10 = Inr r5 \<Longrightarrow> py_round1 r5 = r5"
  by (auto simp: convert_5yr_from_10yr_def Let_def py_round1_idem split: if_splits)

lemma compute_high:
  "compute high_risk_inputs =
     Inr \<lparr>res_risk10 = 100, res_risk5 = 100, res_baseline = 85, res_final_ldl = 7 / 2,
          res_rrr_hba1c = 0, res_remaining = 17 / 20, final_risk = 85, arr = 0, rrr = 0\<rparr>"
  by (simp add: compute_def high_risk_inputs_def estimate_high convert_100
        baseline_risk_capped_def caps_def final_ldl_def stacking_def interventions_def
        ldl_effect_def bp_effect_def hba1c_effect_def metrics_def)

lemma compute_low:
  "compute low_risk_inputs =
     Inr \<lparr>res_risk10 = 1 / 10, res_risk5 = 1 / 10, res_baseline = 1 / 10, res_final_ldl = 7 / 2,
          res_rrr_hba1c = 0, res_remaining = 1 / 1000, final_risk = 1 / 10, arr = 0, rrr = 0\<rparr>"
  by (simp add: compute_def low_risk_inputs_def estimate_low convert_low
        baseline_risk_capped_def caps_def final_ldl_def stacking_def interventions_def
        ldl_effect_def bp_effect_def hba1c_effect_def metrics_def py_round1_def
        round_half_even_def)

lemma compute_low_smoking_cessation:
  "compute (low_risk_inputs\<lparr>ivs := [''Smoking cessation'']\<rparr>) =
     Inr \<lparr>res_risk10 = 1 / 10, res_risk5 = 1 / 10, res_baseline = 1 / 10, res_final_ldl = 7 / 2,
          res_rrr_hba1c = 0, res_remaining = 83 / 100000, final_risk = 1 / 10, arr = 0, rrr = 0\<rparr>"
  by (simp add: compute_def low_risk_inputs_def estimate_low convert_low
        baseline_risk_capped_def caps_def final_ldl_def stacking_def interventions_def
        ldl_effect_def bp_effect_def hba1c_effect_def metrics_def py_round1_def
        round_half_even_def)

lemma compute_high_treated:
  "compute (high_risk_inputs\<lparr>baseline_ldl := 6, hba1c := 12, pre_tx := [''PCSK9 inhibitor''],
              sbp_target := 80, ivs := map name interventions\<rparr>) =
     Inr \<lparr>res_risk10 = 100, res_risk5 = 100, res_baseline = 85, res_final_ldl = 12 / 5,
          res_rrr_hba1c = 30, res_remaining = 24427683933251720121 / 195312500000000000000,
          final_risk = 25 / 2, arr = 145 / 2, rrr = 75\<rparr>"
  by (simp add: compute_def high_risk_inputs_def estimate_high convert_100
        baseline_risk_capped_def caps_def final_ldl_def ldl_therapies_def stacking_def
        interventions_def ldl_effect_def bp_effect_def hba1c_effect_def metrics_def
        py_round1_def round_half_even_def)

lemma final_ldl_at_floor:
  assumes "base \<le> 1" and "final_ldl base pre add = Inr fl"
  shows "base \<le> fl"
  using assms(1) final_ldl_ge_1 [OF assms(2)] by linarith

section \<open>The claims of the specification\<close>

subsection \<open>The stacking engine\<close>

text \<open>
  Claim C1. The running probability after the stacking engine is the probability left by the
  non-lipid interventions times three factors, each applied at most once and each capped
  before it is applied: \<open>1 - min (22 * drop) 35 / 100\<close> when the projected LDL is below the
  baseline LDL, \<open>1 - min (15 * (drop / 10)) 20 / 100\<close> when the target pressure is below the
  current one, \<open>1 - min ((HbA1c - 7.0) * 9) 30 / 100\<close> when HbA1c exceeds 7.0; a factor whose
  condition fails is 1. The glycaemic reduction that the script keeps, \<open>rrr_hba1c\<close>, is 0 in
  the other case and is never negative and never above 30.
\<close>

theorem stacking_physiological_factors:
  "stacking capped sel hor fl base target current h =
     (let r0 = apply_interventions interventions sel hor (capped / 100);
          rrr_ldl = (if fl < base then min (22 * (base - fl)) 35 else 0);
          rrr_bp = (if target < current
                    then min (15 * (of_int (current - target) / 10)) 20 else 0);
          rrr_hba1c = (if 7.0 < h then min ((h - 7.0) * 9) 30 else 0)
      in (rrr_hba1c,
          r0 * (1 - rrr_ldl / 100) * (1 - rrr_bp / 100) * (1 - rrr_hba1c / 100)))
   \<and> 0 \<le> fst (stacking capped sel hor fl base target current h)
   \<and> fst (stacking capped sel hor fl base target current h) \<le> 30"
  by (simp add: stacking_def ldl_effect_def bp_effect_def hba1c_effect_def Let_def)

theorem stacking_physiological_factors_witness:
  "stacking 85 [] ''10yr'' 1 (7 / 2) 120 145 8 = (9, 85 / 100 * (65 / 100) * (80 / 100) * (91 / 100))"
  using stacking_physiological_factors [of 85 "[]" "''10yr''" 1 "7 / 2" 120 145 8]
  by (simp add: interventions_def)

subsection \<open>The identity case\<close>

text \<open>
  Claim C2. For a valid setting of the side bar with no intervention selected, a projected
  LDL that is not below the baseline LDL, a target pressure that is not below the current
  one and HbA1c at most 7.0, the script runs to its end, the final risk is the capped
  baseline risk, and ARR and RRR are both 0.
\<close>

theorem identity_case:
  assumes "valid_inputs i" and "ivs i = []"
    and "final_ldl (baseline_ldl i) (pre_tx i) (add_tx i) = Inr fl"
    and "\<not> fl < baseline_ldl i"
    and "\<not> sbp_target i < sbp_current i"
    and "hba1c i \<le> 7.0"
  shows "\<exists>r. compute i = Inr r \<and> final_risk r = res_baseline r \<and> arr r = 0 \<and> rrr r = 0"
proof -
  obtain r where r: "compute i = Inr r" "py_round1 (res_baseline r) = res_baseline r"
    using compute_valid [OF assms(1)] by blast
  note d = compute_InrD [OF r(1)]
  have fl: "res_final_ldl r = fl" using d(4) assms(3) by simp
  have "stacking (res_baseline r) (ivs i) (horizon i) (res_final_ldl r) (baseline_ldl i)
           (sbp_target i) (sbp_current i) (hba1c i) = (0, res_baseline r / 100)"
    using assms(2,4,5,6) fl
    by (simp add: stacking_def apply_interventions_prod ldl_effect_def bp_effect_def
          hba1c_effect_def)
  then have rem: "res_remaining r = res_baseline r / 100" using d(5) by simp
  have "metrics (res_baseline r) (res_remaining r) = (res_baseline r, 0, 0)"
    unfolding rem by (rule metrics_identity [OF r(2)])
  with d(6) have "final_risk r = res_baseline r \<and> arr r = 0 \<and> rrr r = 0" by simp
  then show ?thesis using r(1) by blast
qed

theorem identity_case_witness:
  "valid_inputs high_risk_inputs \<and> ivs high_risk_inputs = []
   \<and> final_ldl (baseline_ldl high_risk_inputs) (pre_tx high_risk_inputs)
        (add_tx high_risk_inputs) = Inr (7 / 2)
   \<and> \<not> 7 / 2 < baseline_ldl high_risk_inputs
   \<and> \<not> sbp_target high_risk_inputs < sbp_current high_risk_inputs
   \<and> hba1c high_risk_inputs \<le> 7.0
   \<and> (\<exists>r. compute high_risk_inputs = Inr r \<and> final_risk r = res_baseline r
          \<and> arr r = 0 \<and> rrr r = 0)"
proof -
  have h: "ivs high_risk_inputs = []"
      "final_ldl (baseline_ldl high_risk_inputs) (pre_tx high_risk_inputs)
        (add_tx high_risk_inputs) = Inr (7 / 2)"
      "\<not> 7 / 2 < baseline_ldl high_risk_inputs"
      "\<not> sbp_target high_risk_inputs < sbp_current high_risk_inputs"
      "hba1c high_risk_inputs \<le> 7.0"
    by (simp_all add: high_risk_inputs_def final_ldl_def)
  show ?thesis
    using identity_case [OF valid_high_risk_inputs h] valid_high_risk_inputs h by blast
qed

subsection \<open>The range of the baseline risk\<close>

text \<open>
  Claim C3, amended. For every valid setting of the side bar the script runs to its end,
  the ten-year risk is the result of \<open>estimate_smart_risk\<close> and lies in the closed interval
  from 0 to 100, the five-year risk is the result of \<open>convert_5yr_from_10yr\<close> at the
  ten-year risk, that is \<open>1 - (1 - risk10 / 100) ^ 0.5\<close> as a percentage rounded to one
  decimal, and the five-year risk is at most the ten-year risk.
\<close>

theorem risk10_closed_range_risk5_below:
  assumes "valid_inputs i"
  shows "\<exists>r. compute i = Inr r
           \<and> estimate_smart_risk (age i) (sex i) (sbp_current i) (total_chol i) (hdl i)
               (smoker i) (diabetes i) (egfr i) (crp i) (vasc_count i) = Inr (res_risk10 r)
           \<and> 0 \<le> res_risk10 r \<and> res_risk10 r \<le> 100
           \<and> convert_5yr_from_10yr (res_risk10 r) = Inr (res_risk5 r)
           \<and> res_risk5 r = py_round1 ((1 - (1 - res_risk10 r / 100) powr 0.5) * 100)
           \<and> res_risk5 r \<le> res_risk10 r"
proof -
  obtain r where r: "compute i = Inr r" "0.1 \<le> res_risk5 r" "res_risk5 r \<le> res_risk10 r"
      "res_risk10 r \<le> 100"
    using compute_valid [OF assms] by blast
  note d = compute_InrD [OF r(1)]
  have "0 \<le> res_risk10 r" using r(2,3) by linarith
  moreover have "res_risk5 r = py_round1 ((1 - (1 - res_risk10 r / 100) powr 0.5) * 100)"
    using d(2) r(4) by (simp add: convert_5yr_from_10yr_def Let_def)
  ultimately show ?thesis using r d(1,2) by blast
qed

theorem risk10_closed_range_risk5_below_witness:
  "valid_inputs low_risk_inputs
   \<and> (\<exists>r. compute low_risk_inputs = Inr r
           \<and> estimate_smart_risk (age low_risk_inputs) (sex low_risk_inputs)
               (sbp_current low_risk_inputs) (total_chol low_risk_inputs) (hdl low_risk_inputs)
               (smoker low_risk_inputs) (diabetes low_risk_inputs) (egfr low_risk_inputs)
               (crp low_risk_inputs) (vasc_count low_risk_inputs) = Inr (res_risk10 r)
           \<and> 0 \<le> res_risk10 r \<and> res_risk10 r \<le> 100
           \<and> convert_5yr_from_10yr (res_risk10 r) = Inr (res_risk5 r)
           \<and> res_risk5 r = py_round1 ((1 - (1 - res_risk10 r / 100) powr 0.5) * 100)
           \<and> res_risk5 r \<le> res_risk10 r)"
  using risk10_closed_range_risk5_below [OF valid_low_risk_inputs] valid_low_risk_inputs
  by blast

text \<open>
  Claim C3 as stated has the ten-year risk below 100. At the setting \<open>high_risk_inputs\<close>,
  which is valid, the unrounded risk is above 99.95 and the rounded ten-year risk is 100.
\<close>

theorem risk10_reaches_100:
  "valid_inputs high_risk_inputs
   \<and> compute high_risk_inputs =
       Inr \<lparr>res_risk10 = 100, res_risk5 = 100, res_baseline = 85, res_final_ldl = 7 / 2,
            res_rrr_hba1c = 0, res_remaining = 17 / 20, final_risk = 85, arr = 0, rrr = 0\<rparr>"
  using valid_high_risk_inputs compute_high by simp

subsection \<open>The ceiling of the baseline risk\<close>

text \<open>
  Claim C4. For every valid setting the capped baseline risk is the minimum of the risk
  figure of the horizon and the ceiling of the horizon: 80 with the five-year risk for the
  five-year horizon, 85 with the ten-year risk for the ten-year horizon, 90 with the
  ten-year risk for the lifetime horizon. Both risk figures are values of \<open>round(x, 1)\<close>, so
  the minimum is taken after the rounding.
\<close>

theorem baseline_cap_after_rounding:
  assumes "valid_inputs i"
  shows "\<exists>r. compute i = Inr r
           \<and> res_risk10 r = py_round1 ((1 - 0.9 powr exp
                 (lp_of (age i) (sex i) (sbp_current i) (total_chol i) (hdl i) (smoker i)
                    (diabetes i) (egfr i) (crp i) (vasc_count i) - 5.8)) * 100)
           \<and> res_risk5 r = py_round1 ((1 - (1 - res_risk10 r / 100) powr 0.5) * 100)
           \<and> res_baseline r =
               (if horizon i = ''5yr'' then min (res_risk5 r) 80
                else if horizon i = ''10yr'' then min (res_risk10 r) 85
                else min (res_risk10 r) 90)"
proof -
  obtain r where r: "compute i = Inr r" "res_risk10 r \<le> 100"
    using compute_valid [OF assms] by blast
  note d = compute_InrD [OF r(1)]
  have c: "crp i = 0 \<or> 0 < crp i + 1" using assms by (simp add: valid_inputs_def)
  have h: "horizon i \<in> {''5yr'', ''10yr'', ''lifetime''}"
    using assms by (simp add: valid_inputs_def)
  have "res_risk10 r = py_round1 ((1 - 0.9 powr exp
                 (lp_of (age i) (sex i) (sbp_current i) (total_chol i) (hdl i) (smoker i)
                    (diabetes i) (egfr i) (crp i) (vasc_count i) - 5.8)) * 100)"
    using d(1) unfolding estimate_smart_risk_eq [OF c] by simp
  moreover have "res_risk5 r = py_round1 ((1 - (1 - res_risk10 r / 100) powr 0.5) * 100)"
    using d(2) r(2) by (simp add: convert_5yr_from_10yr_def Let_def)
  moreover have "res_baseline r =
               (if horizon i = ''5yr'' then min (res_risk5 r) 80
                else if horizon i = ''10yr'' then min (res_risk10 r) 85
                else min (res_risk10 r) 90)"
    using d(3) h by (auto simp: baseline_risk_capped_def caps_def)
  ultimately show ?thesis using r(1) by blast
qed

theorem baseline_cap_after_rounding_witness:
  "valid_inputs high_risk_inputs
   \<and> (\<exists>r. compute high_risk_inputs = Inr r \<and> res_risk10 r = 100 \<and> res_baseline r = 85)"
proof -
  obtain r where r: "compute high_risk_inputs = Inr r"
      "res_baseline r =
               (if horizon high_risk_inputs = ''5yr'' then min (res_risk5 r) 80
                else if horizon high_risk_inputs = ''10yr'' then min (res_risk10 r) 85
                else min (res_risk10 r) 90)"
    using baseline_cap_after_rounding [OF valid_high_risk_inputs] by blast
  have e: "r = \<lparr>res_risk10 = 100, res_risk5 = 100, res_baseline = 85, res_final_ldl = 7 / 2,
          res_rrr_hba1c = 0, res_remaining = 17 / 20, final_risk = 85, arr = 0, rrr = 0\<rparr>"
    using r(1) by (simp add: compute_high)
  have "res_risk10 r = 100" "res_baseline r = 85" unfolding e by simp_all
  then show ?thesis using r(1) valid_high_risk_inputs by blast
qed

subsection \<open>The floor of the projected LDL\<close>

text \<open>
  Claim C5. For every baseline LDL and all lists of catalogue therapies, the LDL adjustment
  returns the baseline times the factors \<open>1 - pct / 100\<close> of the pre-admission therapies,
  raised to 1.0 when it is below, times the factors \<open>1 - (pct / 100) * 0.5\<close> of the add-on
  therapies, raised to 1.0 again; so the projected LDL is never below 1.0.
\<close>

theorem projected_ldl_floor:
  assumes "set pre \<subseteq> set (map fst ldl_therapies)"
    and "set add \<subseteq> set (map fst ldl_therapies)"
  shows "\<exists>fl. final_ldl base pre add = Inr fl
           \<and> fl = max (max (base * (\<Prod>d\<leftarrow>pre. 1 - ldl_pct d / 100)) 1
                        * (\<Prod>d\<leftarrow>add. 1 - (ldl_pct d / 100) * 0.5)) 1
           \<and> 1 \<le> fl"
  using final_ldl_valid [OF assms, of base] by simp

theorem projected_ldl_floor_witness:
  "set [''PCSK9 inhibitor'', ''Atorvastatin 80 mg''] \<subseteq> set (map fst ldl_therapies)
   \<and> set [''Ezetimibe''] \<subseteq> set (map fst ldl_therapies)
   \<and> final_ldl (7 / 2) [''PCSK9 inhibitor'', ''Atorvastatin 80 mg''] [''Ezetimibe''] = Inr 1"
  using projected_ldl_floor [of "[''PCSK9 inhibitor'', ''Atorvastatin 80 mg'']" "[''Ezetimibe'']" "7 / 2"]
  by (simp add: ldl_therapies_def ldl_pct_def)

subsection \<open>The relative risk reduction\<close>

text \<open>
  Claim C6. Whenever the script runs to its end, the reported RRR is
  \<open>min (ARR / baseline * 100) 75\<close> rounded to one decimal when the capped baseline risk is
  not 0, and 0 when it is 0; in both cases it is at most 75.
\<close>

theorem rrr_capped_at_75:
  assumes "compute i = Inr r"
  shows "rrr r = (if res_baseline r \<noteq> 0
                  then py_round1 (min (arr r / res_baseline r * 100) 75) else 0)
       \<and> rrr r \<le> 75"
proof -
  note d = compute_InrD [OF assms]
  have "rrr r = snd (snd (metrics (res_baseline r) (res_remaining r)))"
       "arr r = fst (snd (metrics (res_baseline r) (res_remaining r)))"
    using d(6) by simp_all
  then have "rrr r = (if res_baseline r \<noteq> 0
                  then py_round1 (min (arr r / res_baseline r * 100) 75) else 0)"
    by (simp add: metrics_def Let_def)
  moreover have "rrr r \<le> 75"
    using d(6) metrics_rrr_le [of "res_baseline r" "res_remaining r"] by simp
  ultimately show ?thesis by blast
qed

theorem rrr_capped_at_75_witness:
  "compute (high_risk_inputs\<lparr>baseline_ldl := 6, hba1c := 12, pre_tx := [''PCSK9 inhibitor''],
              sbp_target := 80, ivs := map name interventions\<rparr>) =
     Inr \<lparr>res_risk10 = 100, res_risk5 = 100, res_baseline = 85, res_final_ldl = 12 / 5,
          res_rrr_hba1c = 30, res_remaining = 24427683933251720121 / 195312500000000000000,
          final_risk = 25 / 2, arr = 145 / 2, rrr = 75\<rparr>
   \<and> (75 :: real) = py_round1 (min (145 / 2 / 85 * 100) 75)"
  using rrr_capped_at_75 [OF compute_high_treated] compute_high_treated by simp

subsection \<open>The order of the pre-admission therapies\<close>

text \<open>
  Claim C7. For every baseline LDL and every list of catalogue therapies, the loop over the
  pre-admission therapies returns the same value for every permutation of the list, namely
  the baseline times the product of the factors \<open>1 - pct / 100\<close>, and so the projected LDL
  is the same too. Over the reals of this model the two values are equal.
\<close>

theorem pre_tx_order_invariant:
  assumes "mset pre' = mset pre"
    and "set pre \<subseteq> set (map fst ldl_therapies)"
  shows "apply_pre_tx pre' base = apply_pre_tx pre base
       \<and> apply_pre_tx pre base = Inr (base * (\<Prod>d\<leftarrow>pre. 1 - ldl_pct d / 100))
       \<and> final_ldl base pre' add = final_ldl base pre add"
proof -
  have "set pre' = set pre" using assms(1) by (rule mset_eq_setD)
  then have s: "set pre' \<subseteq> set (map fst ldl_therapies)" using assms(2) by simp
  have "(\<Prod>d\<leftarrow>pre'. 1 - ldl_pct d / 100) = (\<Prod>d\<leftarrow>pre. 1 - ldl_pct d / 100)"
    using assms(1) by (rule prod_list_perm)
  then have e: "apply_pre_tx pre' base = apply_pre_tx pre base"
    by (simp add: apply_pre_tx_valid [OF s] apply_pre_tx_valid [OF assms(2)])
  then have "final_ldl base pre' add = final_ldl base pre add"
    by (simp add: final_ldl_def)
  then show ?thesis using e apply_pre_tx_valid [OF assms(2)] by simp
qed

theorem pre_tx_order_invariant_witness:
  "mset [''Ezetimibe'', ''Atorvastatin 80 mg''] = mset [''Atorvastatin 80 mg'', ''Ezetimibe'']
   \<and> set [''Atorvastatin 80 mg'', ''Ezetimibe''] \<subseteq> set (map fst ldl_therapies)
   \<and> apply_pre_tx [''Ezetimibe'', ''Atorvastatin 80 mg''] (7 / 2)
       = apply_pre_tx [''Atorvastatin 80 mg'', ''Ezetimibe''] (7 / 2)
   \<and> apply_pre_tx [''Atorvastatin 80 mg'', ''Ezetimibe''] (7 / 2) = Inr (7 / 5)
   \<and> final_ldl (7 / 2) [''Ezetimibe'', ''Atorvastatin 80 mg''] []
       = final_ldl (7 / 2) [''Atorvastatin 80 mg'', ''Ezetimibe''] []"
proof -
  have m: "mset [''Ezetimibe'', ''Atorvastatin 80 mg''] = mset [''Atorvastatin 80 mg'', ''Ezetimibe'']"
    by simp
  have s: "set [''Atorvastatin 80 mg'', ''Ezetimibe''] \<subseteq> set (map fst ldl_therapies)"
    by (simp add: ldl_therapies_def)
  have v: "apply_pre_tx [''Atorvastatin 80 mg'', ''Ezetimibe''] (7 / 2) = Inr (7 / 5)"
    by (simp add: ldl_therapies_def)
  show ?thesis
    using pre_tx_order_invariant [OF m s, of "7 / 2" "[]"] m s v by simp
qed

subsection \<open>One more intervention\<close>

text \<open>
  Claim C8, amended. For every valid setting and every intervention of the catalogue that is
  not selected, selecting it as well leaves the capped baseline as it is, multiplies the
  running probability \<open>remaining\<close> by \<open>1 - effect / 100\<close> and so makes it strictly smaller;
  the reported final risk, which is \<open>remaining * 100\<close> rounded to one decimal, does not
  increase.
\<close>

theorem added_intervention_lowers_remaining:
  assumes "valid_inputs i"
    and "iv \<in> set interventions"
    and "name iv \<notin> set (ivs i)"
    and "set sel' = insert (name iv) (set (ivs i))"
  shows "\<exists>r r'. compute i = Inr r \<and> compute (i\<lparr>ivs := sel'\<rparr>) = Inr r'
           \<and> res_baseline r' = res_baseline r
           \<and> res_remaining r' =
               (1 - of_int (if horizon i = ''5yr'' then arr_5yr iv else arr_lifetime iv) / 100)
               * res_remaining r
           \<and> res_remaining r' < res_remaining r
           \<and> final_risk r = py_round1 (res_remaining r * 100)
           \<and> final_risk r' = py_round1 (res_remaining r' * 100)
           \<and> final_risk r' \<le> final_risk r"
proof -
  obtain r where r: "compute i = Inr r" "0.1 \<le> res_baseline r"
    using compute_valid [OF assms(1)] by blast
  note d = compute_InrD [OF r(1)]
  obtain r' where r': "compute (i\<lparr>ivs := sel'\<rparr>) = Inr r'" "res_baseline r' = res_baseline r"
      "res_remaining r' = snd (stacking (res_baseline r) sel' (horizon i) (res_final_ldl r)
                  (baseline_ldl i) (sbp_target i) (sbp_current i) (hba1c i))"
      "final_risk r' = py_round1 (res_remaining r' * 100)"
    using compute_change_ivs [OF r(1), of sel'] by blast
  let ?c = "1 - real_of_int (if horizon i = ''5yr'' then arr_5yr iv else arr_lifetime iv) / 100"
  have rem: "res_remaining r = snd (stacking (res_baseline r) (ivs i) (horizon i) (res_final_ldl r)
                  (baseline_ldl i) (sbp_target i) (sbp_current i) (hba1c i))"
    using d(5) by simp
  have sc: "res_remaining r' = ?c * res_remaining r"
    unfolding r'(3) rem
    by (rule stacking_scale) (rule add_intervention_factor [OF assms(2,3,4)])
  have pos: "0 < res_remaining r"
    unfolding rem by (rule stacking_pos) (use r(2) in simp)
  have c: "?c < 1" using interventions_effects [OF assms(2)] by simp
  have "?c * res_remaining r < 1 * res_remaining r"
    using c pos by (rule mult_strict_right_mono)
  then have lt: "res_remaining r' < res_remaining r" using sc by simp
  have fr: "final_risk r = py_round1 (res_remaining r * 100)"
    using d(6) metrics_final_risk [of "res_baseline r" "res_remaining r"] by simp
  have "py_round1 (res_remaining r' * 100) \<le> py_round1 (res_remaining r * 100)"
    by (rule py_round1_mono) (use lt in simp)
  then have "final_risk r' \<le> final_risk r" using fr r'(4) by simp
  then show ?thesis using r(1) r'(1,2,4) sc lt fr by blast
qed

theorem added_intervention_lowers_remaining_witness:
  "valid_inputs low_risk_inputs
   \<and> \<lparr>name = ''Smoking cessation'', arr_lifetime = 17, arr_5yr = 5\<rparr> \<in> set interventions
   \<and> ''Smoking cessation'' \<notin> set (ivs low_risk_inputs)
   \<and> set [''Smoking cessation''] = insert ''Smoking cessation'' (set (ivs low_risk_inputs))
   \<and> (\<exists>r r'. compute low_risk_inputs = Inr r
          \<and> compute (low_risk_inputs\<lparr>ivs := [''Smoking cessation'']\<rparr>) = Inr r'
          \<and> res_remaining r' < res_remaining r \<and> final_risk r' \<le> final_risk r)"
proof -
  let ?iv = "\<lparr>name = ''Smoking cessation'', arr_lifetime = 17, arr_5yr = 5\<rparr>"
  have a: "?iv \<in> set interventions" by (simp add: interventions_def)
  have b: "name ?iv \<notin> set (ivs low_risk_inputs)" by (simp add: low_risk_inputs_def)
  have c: "set [''Smoking cessation''] = insert (name ?iv) (set (ivs low_risk_inputs))"
    by (simp add: low_risk_inputs_def)
  have "\<exists>r r'. compute low_risk_inputs = Inr r
          \<and> compute (low_risk_inputs\<lparr>ivs := [''Smoking cessation'']\<rparr>) = Inr r'
          \<and> res_remaining r' < res_remaining r \<and> final_risk r' \<le> final_risk r"
    using added_intervention_lowers_remaining [OF valid_low_risk_inputs a b c] by blast
  then show ?thesis using valid_low_risk_inputs a b c by simp
qed

text \<open>
  Claim C8 as stated has the reported final risk strictly smaller. At the valid setting
  \<open>low_risk_inputs\<close> the reported final risk is 0.1 without an intervention and 0.1 again
  with smoking cessation selected: 0.083 is rounded to 0.1.
\<close>

theorem added_intervention_same_final_risk:
  "valid_inputs low_risk_inputs
   \<and> valid_inputs (low_risk_inputs\<lparr>ivs := [''Smoking cessation'']\<rparr>)
   \<and> ivs low_risk_inputs = []
   \<and> \<lparr>name = ''Smoking cessation'', arr_lifetime = 17, arr_5yr = 5\<rparr> \<in> set interventions
   \<and> compute low_risk_inputs =
       Inr \<lparr>res_risk10 = 1 / 10, res_risk5 = 1 / 10, res_baseline = 1 / 10,
            res_final_ldl = 7 / 2, res_rrr_hba1c = 0, res_remaining = 1 / 1000,
            final_risk = 1 / 10, arr = 0, rrr = 0\<rparr>
   \<and> compute (low_risk_inputs\<lparr>ivs := [''Smoking cessation'']\<rparr>) =
       Inr \<lparr>res_risk10 = 1 / 10, res_risk5 = 1 / 10, res_baseline = 1 / 10,
            res_final_ldl = 7 / 2, res_rrr_hba1c = 0, res_remaining = 83 / 100000,
            final_risk = 1 / 10, arr = 0, rrr = 0\<rparr>
   \<and> \<not> (1 / 10 :: real) < 1 / 10"
proof -
  have "valid_inputs (low_risk_inputs\<lparr>ivs := [''Smoking cessation'']\<rparr>)"
    by (simp add: valid_inputs_def low_risk_inputs_def interventions_def)
  moreover have "ivs low_risk_inputs = []" by (simp add: low_risk_inputs_def)
  moreover have "\<lparr>name = ''Smoking cessation'', arr_lifetime = 17, arr_5yr = 5\<rparr> \<in> set interventions"
    by (simp add: interventions_def)
  ultimately show ?thesis
    using valid_low_risk_inputs compute_low compute_low_smoking_cessation by simp
qed

subsection \<open>The effect size of the horizon\<close>

text \<open>
  Claim C9. With the ten-year horizon the loop over the catalogue multiplies the running
  probability by \<open>1 - arr_lifetime / 100\<close> for every selected intervention, which is what it
  does with the lifetime horizon; \<open>arr_5yr\<close> is used with the five-year horizon and with no
  other. An entry of the catalogue has these two effect sizes and no third one.
\<close>

theorem ten_year_uses_lifetime_effect:
  "apply_interventions interventions sel ''10yr'' x =
     x * (\<Prod>iv\<leftarrow>filter (\<lambda>iv. name iv \<in> set sel) interventions.
            1 - of_int (arr_lifetime iv) / 100)
   \<and> apply_interventions interventions sel ''lifetime'' x =
       apply_interventions interventions sel ''10yr'' x
   \<and> apply_interventions interventions sel ''5yr'' x =
       x * (\<Prod>iv\<leftarrow>filter (\<lambda>iv. name iv \<in> set sel) interventions.
              1 - of_int (arr_5yr iv) / 100)
   \<and> apply_interventions cat sel hor x =
       x * (\<Prod>iv\<leftarrow>filter (\<lambda>iv. name iv \<in> set sel) cat.
              1 - of_int (if hor = ''5yr'' then arr_5yr iv else arr_lifetime iv) / 100)"
  by (simp add: apply_interventions_prod)

theorem ten_year_uses_lifetime_effect_witness:
  "apply_interventions interventions [''Smoking cessation'', ''Stress reduction''] ''10yr'' 1
     = 83 / 100 * (97 / 100)
   \<and> apply_interventions interventions [''Smoking cessation'', ''Stress reduction''] ''lifetime'' 1
     = 83 / 100 * (97 / 100)
   \<and> apply_interventions interventions [''Smoking cessation'', ''Stress reduction''] ''5yr'' 1
     = 95 / 100 * (99 / 100)"
  using ten_year_uses_lifetime_effect
    [of "[''Smoking cessation'', ''Stress reduction'']" 1 interventions "''10yr''"]
  by (simp add: interventions_def)

subsection \<open>A baseline LDL at the floor\<close>

text \<open>
  Claim C10. The LDL effect changes the running probability only when the projected LDL is
  strictly below the baseline LDL. When the baseline LDL is at most 1.0, the projected LDL
  is 1.0 for all lists of catalogue therapies, so it is not below the baseline, the LDL
  effect leaves the running probability as it is, and the stacking is that of the
  interventions, the blood pressure and HbA1c alone.
\<close>

theorem no_ldl_effect_at_or_below_floor:
  assumes "base \<le> 1"
    and "set pre \<subseteq> set (map fst ldl_therapies)"
    and "set add \<subseteq> set (map fst ldl_therapies)"
  shows "ldl_effect f b y = (if f < b then y * (1 - min (22 * (b - f)) 35 / 100) else y)
       \<and> (\<exists>fl. final_ldl base pre add = Inr fl \<and> fl = 1 \<and> \<not> fl < base
              \<and> ldl_effect fl base x = x
              \<and> stacking capped sel hor fl base target current h =
                  hba1c_effect h (bp_effect target current
                    (apply_interventions interventions sel hor (capped / 100))))"
proof -
  obtain fl where fl: "final_ldl base pre add = Inr fl"
      "fl = max (max (base * (\<Prod>d\<leftarrow>pre. 1 - ldl_pct d / 100)) 1
                  * (\<Prod>d\<leftarrow>add. 1 - (ldl_pct d / 100) * 0.5)) 1"
    using final_ldl_valid [OF assms(2,3), of base] by simp
  have ge: "base \<le> fl" using assms(1) fl(1) by (rule final_ldl_at_floor)
  then have n: "\<not> fl < base" by simp
  then have e: "ldl_effect fl base z = z" for z by (simp add: ldl_effect_def)
  have pp: "0 \<le> (\<Prod>d\<leftarrow>pre. 1 - ldl_pct d / 100) \<and> (\<Prod>d\<leftarrow>pre. 1 - ldl_pct d / 100) \<le> 1"
    using assms(2)
  proof (induction pre)
    case Nil
    then show ?case by simp
  next
    case (Cons d pre)
    then have "d \<in> set (map fst ldl_therapies)" by simp
    then have "0 \<le> 1 - ldl_pct d / 100 \<and> 1 - ldl_pct d / 100 \<le> 1"
      by (auto simp: ldl_therapies_def ldl_pct_def)
    moreover have "0 \<le> (\<Prod>d\<leftarrow>pre. 1 - ldl_pct d / 100) \<and> (\<Prod>d\<leftarrow>pre. 1 - ldl_pct d / 100) \<le> 1"
      using Cons by simp
    ultimately show ?case by (simp add: mult_le_one)
  qed
  have pa: "0 \<le> (\<Prod>d\<leftarrow>add. 1 - (ldl_pct d / 100) * 0.5)
          \<and> (\<Prod>d\<leftarrow>add. 1 - (ldl_pct d / 100) * 0.5) \<le> 1"
    using assms(3)
  proof (induction add)
    case Nil
    then show ?case by simp
  next
    case (Cons d add)
    then have "d \<in> set (map fst ldl_therapies)" by simp
    then have "0 \<le> 1 - (ldl_pct d / 100) * 0.5 \<and> 1 - (ldl_pct d / 100) * 0.5 \<le> 1"
      by (auto simp: ldl_therapies_def ldl_pct_def)
    moreover have "0 \<le> (\<Prod>d\<leftarrow>add. 1 - (ldl_pct d / 100) * 0.5)
          \<and> (\<Prod>d\<leftarrow>add. 1 - (ldl_pct d / 100) * 0.5) \<le> 1"
      using Cons by simp
    ultimately show ?case by (simp add: mult_le_one)
  qed
  have "base * (\<Prod>d\<leftarrow>pre. 1 - ldl_pct d / 100) \<le> 1"
  proof (cases "0 \<le> base")
    case True
    then show ?thesis using assms(1) pp by (simp add: mult_le_one)
  next
    case False
    then have "base * (\<Prod>d\<leftarrow>pre. 1 - ldl_pct d / 100) \<le> 0"
      using pp by (simp add: mult_le_0_iff)
    then show ?thesis by linarith
  qed
  then have "max (base * (\<Prod>d\<leftarrow>pre. 1 - ldl_pct d / 100)) 1 = 1" by simp
  then have "fl \<le> 1" unfolding fl(2) using pa by simp
  then have one: "fl = 1" using final_ldl_ge_1 [OF fl(1)] by linarith
  have "stacking capped sel hor fl base target current h =
          hba1c_effect h (bp_effect target current
            (apply_interventions interventions sel hor (capped / 100)))"
    by (simp add: stacking_def e)
  then show ?thesis using fl(1) one n e by (simp add: ldl_effect_def Let_def)
qed

theorem no_ldl_effect_at_or_below_floor_witness:
  "(1 / 2 :: real) \<le> 1
   \<and> set [''PCSK9 inhibitor''] \<subseteq> set (map fst ldl_therapies)
   \<and> set [''Ezetimibe''] \<subseteq> set (map fst ldl_therapies)
   \<and> final_ldl (1 / 2) [''PCSK9 inhibitor''] [''Ezetimibe''] = Inr 1
   \<and> ldl_effect 1 (1 / 2) (17 / 20) = 17 / 20"
  using no_ldl_effect_at_or_below_floor
    [of "1 / 2" "[''PCSK9 inhibitor'']" "[''Ezetimibe'']" 1 "1 / 2" "17 / 20" "17 / 20"
        85 "[]" "''10yr''" 120 120 7]
  by (simp add: ldl_therapies_def)

end
